theory Spec2Isabelle
  imports Main "HOL-Library.Word"
begin

section \<open>The DNS PTR record resource of the azurerm provider\<close>

text \<open>
  The file \<^verbatim>\<open>azurerm/resource_arm_dns_ptr_record.go\<close> holds three entry points
  (\<^verbatim>\<open>resourceArmDnsPtrRecordCreateOrUpdate\<close>, \<^verbatim>\<open>resourceArmDnsPtrRecordRead\<close>,
  \<^verbatim>\<open>resourceArmDnsPtrRecordDelete\<close>) and two helpers
  (\<^verbatim>\<open>flattenAzureRmDnsPtrRecords\<close>, \<^verbatim>\<open>expandAzureRmDnsPtrRecords\<close>). Each entry point
  takes the resource data \<^verbatim>\<open>d\<close> and the client holder \<^verbatim>\<open>meta\<close>, mutates both, and
  returns a Go \<^verbatim>\<open>error\<close>. The model passes both explicitly and returns them updated,
  together with the outcome of the call: \<^verbatim>\<open>nil\<close>, an error, or a panic.
\<close>

subsection \<open>Constants of the standard library and of the SDK\<close>

type_synonym int64 = "64 word"


definition http_StatusNotFound :: int where
  "http_StatusNotFound = 404"

definition dns_PTR :: string where
  "dns_PTR = ''PTR''"

subsection \<open>The SDK's request and response shapes\<close>

text \<open>
  A Go pointer that may be \<^verbatim>\<open>nil\<close> is an \<open>option\<close>. \<^verbatim>\<open>dns.RecordSet\<close> embeds the
  HTTP response (whose \<^verbatim>\<open>StatusCode\<close> the code reads) and a pointer to its
  \<^verbatim>\<open>RecordSetProperties\<close>, through which \<^verbatim>\<open>resp.TTL\<close>, \<^verbatim>\<open>resp.PtrRecords\<close> and
  \<^verbatim>\<open>resp.Metadata\<close> are reached. Every response is taken to carry a status code.
\<close>

record PtrRecord =
  Ptrdname :: "string option"

record RecordSetProperties =
  Metadata :: "(string \<rightharpoonup> string) option"
  TTL :: "int64 option"
  PtrRecords :: "PtrRecord list option"

record Response =
  StatusCode :: int

record RecordSet = Response +
  ID :: "string option"
  Name :: "string option"
  Etag :: "string option"
  Properties :: "RecordSetProperties option"

text \<open>An error of the SDK is its message; \<^verbatim>\<open>nil\<close> is \<open>None\<close>.\<close>

type_synonym sdk_error = string

text \<open>The result of \<^verbatim>\<open>parseAzureResourceID\<close>, as far as this file reads it.\<close>

record ResourceID =
  ResourceGroup :: string
  Path :: "string \<rightharpoonup> string"

text \<open>Indexing a Go map with a missing key gives the zero value.\<close>

definition index_map :: "(string \<rightharpoonup> string) \<Rightarrow> string \<Rightarrow> string" where
  "index_map m k = (case m k of None \<Rightarrow> '''' | Some v \<Rightarrow> v)"

subsection \<open>The resource data\<close>

text \<open>
  \<^verbatim>\<open>schema.ResourceData\<close> for the schema of this resource: the identifier and one
  slot per attribute, \<open>None\<close> while the attribute is unset. The set of records is kept
  as the list that \<^verbatim>\<open>Set.List()\<close> returns; its order carries no meaning.
\<close>

record ResourceData =
  Id :: string
  attr_name :: "string option"
  attr_resource_group_name :: "string option"
  attr_zone_name :: "string option"
  attr_records :: "string list option"
  attr_ttl :: "int64 option"
  attr_etag :: "string option"
  attr_tags :: "(string \<rightharpoonup> string) option"

text \<open>\<^verbatim>\<open>d.Get\<close> returns the zero value of the attribute's type when it is unset.\<close>

definition Get_string :: "string option \<Rightarrow> string" where
  "Get_string v = (case v of None \<Rightarrow> '''' | Some s \<Rightarrow> s)"

definition Get_int :: "int64 option \<Rightarrow> int64" where
  "Get_int v = (case v of None \<Rightarrow> 0 | Some n \<Rightarrow> n)"

definition Get_set_List :: "string list option \<Rightarrow> string list" where
  "Get_set_List v = (case v of None \<Rightarrow> [] | Some xs \<Rightarrow> xs)"

definition Get_map :: "(string \<rightharpoonup> string) option \<Rightarrow> (string \<rightharpoonup> string)" where
  "Get_map v = (case v of None \<Rightarrow> Map.empty | Some m \<Rightarrow> m)"

definition SetId :: "ResourceData \<Rightarrow> string \<Rightarrow> ResourceData" where
  "SetId d v = d\<lparr>Id := v\<rparr>"

subsection \<open>Outcomes\<close>

text \<open>
  The Go code returns untyped errors. The model tags each with the kind the
  specification gives it: an error of \<^verbatim>\<open>parseAzureResourceID\<close> is a \<open>ParseError\<close>, a
  response without identifier a \<open>ProtocolError\<close>, an error of the SDK (returned as it is
  or wrapped) a \<open>RemoteError\<close>, an error of \<^verbatim>\<open>d.Set\<close> a \<open>StateError\<close>. No statement of
  the file builds a \<open>ValidationError\<close>.
\<close>

datatype error =
    ValidationError string
  | ParseError string
  | ProtocolError string
  | RemoteError string
  | StateError string

datatype panic = NilPointerDereference

datatype outcome = Success | Failure error | Panic panic

text \<open>
  \<^verbatim>\<open>d.Set("records", ...)\<close> is the one \<^verbatim>\<open>d.Set\<close> whose error the code checks. For a
  list of strings and this schema it stores the set of the list's elements.
\<close>

definition Set_records :: "ResourceData \<Rightarrow> string list \<Rightarrow> error + ResourceData" where
  "Set_records d xs = Inr (d\<lparr>attr_records := Some (remdups xs)\<rparr>)"

subsection \<open>The two helpers\<close>

text \<open>
  \<^verbatim>\<open>flattenAzureRmDnsPtrRecords\<close> first evaluates \<^verbatim>\<open>len(*records)\<close>, then tests
  \<^verbatim>\<open>records != nil\<close>, then appends \<^verbatim>\<open>*record.Ptrdname\<close> for each record.
\<close>

fun flatten_loop :: "PtrRecord list \<Rightarrow> string list \<Rightarrow> panic + string list" where
  "flatten_loop [] results = Inr results"
| "flatten_loop (record # rest) results =
     (case Ptrdname record of
        None \<Rightarrow> Inl NilPointerDereference
      | Some h \<Rightarrow> flatten_loop rest (results @ [h]))"

definition flattenAzureRmDnsPtrRecords :: "PtrRecord list option \<Rightarrow> panic + string list" where
  "flattenAzureRmDnsPtrRecords records =
     (case records of
        None \<Rightarrow> Inl NilPointerDereference
      | Some rs \<Rightarrow>
          (let results = [] in
           if records \<noteq> None then flatten_loop rs results else Inr results))"

text \<open>
  \<^verbatim>\<open>expandAzureRmDnsPtrRecords\<close> allocates \<^verbatim>\<open>len(recordStrings)\<close> zero records and
  overwrites the \<open>i\<close>-th one for each element; the error it returns is the literal
  \<^verbatim>\<open>nil\<close>.
\<close>

fun expand_loop :: "nat \<Rightarrow> string list \<Rightarrow> PtrRecord list \<Rightarrow> PtrRecord list" where
  "expand_loop i [] records = records"
| "expand_loop i (fqdn # rest) records =
     expand_loop (Suc i) rest (records[i := \<lparr>Ptrdname = Some fqdn\<rparr>])"

definition expandAzureRmDnsPtrRecords :: "ResourceData \<Rightarrow> PtrRecord list \<times> error option" where
  "expandAzureRmDnsPtrRecords d =
     (let recordStrings = Get_set_List (attr_records d);
          records = replicate (length recordStrings) \<lparr>Ptrdname = None\<rparr>
      in (expand_loop 0 recordStrings records, None))"


subsection \<open>Helpers of the provider that live in other files\<close>

text \<open>
  Modelled from the spec: \<^verbatim>\<open>expandTags\<close> (file \<^verbatim>\<open>azurerm/tags.go\<close>, absent here)
  "converts the tag map into the service's metadata representation (key/value
  passthrough)".
\<close>

definition expandTags :: "(string \<rightharpoonup> string) \<Rightarrow> (string \<rightharpoonup> string) option" where
  "expandTags tags = Some tags"

text \<open>
  Modelled from the spec: \<^verbatim>\<open>flattenAndSetTags\<close> (file \<^verbatim>\<open>azurerm/tags.go\<close>, absent
  here) flattens "the returned metadata back into the tag map" and writes it to the
  attribute \<^verbatim>\<open>tags\<close>; metadata that is \<^verbatim>\<open>nil\<close> has no entries.
\<close>

definition flattenAndSetTags :: "ResourceData \<Rightarrow> (string \<rightharpoonup> string) option \<Rightarrow> ResourceData" where
  "flattenAndSetTags d metadata = d\<lparr>attr_tags := Some (Get_map metadata)\<rparr>"

text \<open>
  \<^verbatim>\<open>parseAzureResourceID\<close> (file \<^verbatim>\<open>azurerm/resourceid.go\<close>, absent here) is a
  parameter of the entry points that call it: any function from the identifier to an
  error message or a \<open>ResourceID\<close>.
\<close>

type_synonym parser = "string \<Rightarrow> string + ResourceID"

subsection \<open>The DNS client\<close>

text \<open>
  The SDK's record-set client is a collaborator. It is a parameter: three operations
  over a state \<open>'s\<close> of the remote service, each returning the response and the error of
  the Go call. \<^verbatim>\<open>meta\<close> holds the client, the state of the service and, for the
  statements about which calls are issued, the list of calls made so far.
\<close>

datatype dns_call =
    CreateOrUpdateCall string string string string RecordSet string string
  | GetCall string string string string
  | DeleteCall string string string string string

record 's DnsClient =
  sdk_CreateOrUpdate ::
    "string \<Rightarrow> string \<Rightarrow> string \<Rightarrow> string \<Rightarrow> RecordSet \<Rightarrow> string \<Rightarrow> string \<Rightarrow> 's
      \<Rightarrow> (RecordSet \<times> sdk_error option) \<times> 's"
  sdk_Get ::
    "string \<Rightarrow> string \<Rightarrow> string \<Rightarrow> string \<Rightarrow> 's \<Rightarrow> (RecordSet \<times> sdk_error option) \<times> 's"
  sdk_Delete ::
    "string \<Rightarrow> string \<Rightarrow> string \<Rightarrow> string \<Rightarrow> string \<Rightarrow> 's \<Rightarrow> (Response \<times> sdk_error option) \<times> 's"

record 's ArmClient =
  dnsClient :: "'s DnsClient"
  remote :: 's
  calls :: "dns_call list"

definition dnsClient_CreateOrUpdate ::
  "'s ArmClient \<Rightarrow> string \<Rightarrow> string \<Rightarrow> string \<Rightarrow> string \<Rightarrow> RecordSet \<Rightarrow> string \<Rightarrow> string
    \<Rightarrow> (RecordSet \<times> sdk_error option) \<times> 's ArmClient" where
  "dnsClient_CreateOrUpdate meta resGroup zoneName name recordType parameters ifMatch ifNoneMatch =
     (case sdk_CreateOrUpdate (dnsClient meta) resGroup zoneName name recordType parameters
             ifMatch ifNoneMatch (remote meta) of
        (r, s) \<Rightarrow>
          (r, meta\<lparr>remote := s,
                  calls := calls meta @
                    [CreateOrUpdateCall resGroup zoneName name recordType parameters
                       ifMatch ifNoneMatch]\<rparr>))"

definition dnsClient_Get ::
  "'s ArmClient \<Rightarrow> string \<Rightarrow> string \<Rightarrow> string \<Rightarrow> string
    \<Rightarrow> (RecordSet \<times> sdk_error option) \<times> 's ArmClient" where
  "dnsClient_Get meta resGroup zoneName name recordType =
     (case sdk_Get (dnsClient meta) resGroup zoneName name recordType (remote meta) of
        (r, s) \<Rightarrow>
          (r, meta\<lparr>remote := s,
                  calls := calls meta @ [GetCall resGroup zoneName name recordType]\<rparr>))"



subsection \<open>Read\<close>

definition resourceArmDnsPtrRecordRead ::
  "parser \<Rightarrow> ResourceData \<Rightarrow> 's ArmClient \<Rightarrow> outcome \<times> ResourceData \<times> 's ArmClient" where
  "resourceArmDnsPtrRecordRead parseAzureResourceID d meta =
     (case parseAzureResourceID (Id d) of
        Inl err \<Rightarrow> (Failure (ParseError err), d, meta)
      | Inr rid \<Rightarrow>
          (let resGroup = ResourceGroup rid;
               name = index_map (Path rid) ''PTR'';
               zoneName = index_map (Path rid) ''dnszones''
           in case dnsClient_Get meta resGroup zoneName name dns_PTR of
                ((resp, Some err), meta1) \<Rightarrow>
                  (Failure (RemoteError (''Error reading DNS PTR record '' @ name @ '': '' @ err)),
                   d, meta1)
              | ((resp, None), meta1) \<Rightarrow>
                  if StatusCode resp = http_StatusNotFound then (Success, SetId d [], meta1)
                  else
                    (let d1 = d\<lparr>attr_name := Some name\<rparr>;
                         d2 = d1\<lparr>attr_resource_group_name := Some resGroup\<rparr>;
                         d3 = d2\<lparr>attr_zone_name := Some zoneName\<rparr>
                     in case Properties resp of
                          None \<Rightarrow> (Panic NilPointerDereference, d3, meta1)
                        | Some props \<Rightarrow>
                            (let d4 = d3\<lparr>attr_ttl := TTL props\<rparr>;
                                 d5 = d4\<lparr>attr_etag := Etag resp\<rparr>
                             in case flattenAzureRmDnsPtrRecords (PtrRecords props) of
                                  Inl p \<Rightarrow> (Panic p, d5, meta1)
                                | Inr hosts \<Rightarrow>
                                    (case Set_records d5 hosts of
                                       Inl err \<Rightarrow> (Failure err, d5, meta1)
                                     | Inr d6 \<Rightarrow>
                                         (Success, flattenAndSetTags d6 (Metadata props),
                                          meta1))))))"

subsection \<open>Create and update\<close>

text \<open>
  The error that \<^verbatim>\<open>expandAzureRmDnsPtrRecords\<close> returns is assigned to \<^verbatim>\<open>err\<close> and
  overwritten by the next assignment without being read. The last argument of the call
  is the empty string.
\<close>

definition resourceArmDnsPtrRecordCreateOrUpdate ::
  "parser \<Rightarrow> ResourceData \<Rightarrow> 's ArmClient \<Rightarrow> outcome \<times> ResourceData \<times> 's ArmClient" where
  "resourceArmDnsPtrRecordCreateOrUpdate parseAzureResourceID d meta =
     (let name = Get_string (attr_name d);
          resGroup = Get_string (attr_resource_group_name d);
          zoneName = Get_string (attr_zone_name d);
          ttl = Get_int (attr_ttl d);
          eTag = Get_string (attr_etag d);
          tags = Get_map (attr_tags d);
          metadata = expandTags tags;
          records = fst (expandAzureRmDnsPtrRecords d);
          props = \<lparr>Metadata = metadata, TTL = Some ttl, PtrRecords = Some records\<rparr>;
          parameters = \<lparr>StatusCode = 0, ID = None, Name = Some name, Etag = None,
                          Properties = Some props\<rparr>
      in case dnsClient_CreateOrUpdate meta resGroup zoneName name dns_PTR parameters eTag [] of
           ((resp, Some err), meta1) \<Rightarrow> (Failure (RemoteError err), d, meta1)
         | ((resp, None), meta1) \<Rightarrow>
             (case ID resp of
                None \<Rightarrow>
                  (Failure (ProtocolError
                     (''Cannot read DNS PTR Record '' @ name @ '' (resource group '' @ resGroup
                        @ '') ID'')),
                   d, meta1)
              | Some i \<Rightarrow>
                  resourceArmDnsPtrRecordRead parseAzureResourceID (SetId d i) meta1))"

subsection \<open>Delete\<close>


subsection \<open>Import\<close>

text \<open>
  The importer is \<^verbatim>\<open>schema.ImportStatePassthrough\<close>: the engine makes resource data
  that holds the identifier it was given and nothing else, and the importer returns it
  as it is.
\<close>

definition new_ResourceData :: "string \<Rightarrow> ResourceData" where
  "new_ResourceData i =
     \<lparr>Id = i, attr_name = None, attr_resource_group_name = None, attr_zone_name = None,
      attr_records = None, attr_ttl = None, attr_etag = None, attr_tags = None\<rparr>"


subsection \<open>What the upsert call carries\<close>

text \<open>
  The values that \<^verbatim>\<open>resourceArmDnsPtrRecordCreateOrUpdate\<close> binds to \<^verbatim>\<open>props\<close> and
  \<^verbatim>\<open>parameters\<close>, and the call it passes them to, as functions of the resource data.
\<close>

definition desired_properties :: "ResourceData \<Rightarrow> RecordSetProperties" where
  "desired_properties d =
     \<lparr>Metadata = expandTags (Get_map (attr_tags d)),
      TTL = Some (Get_int (attr_ttl d)),
      PtrRecords = Some (fst (expandAzureRmDnsPtrRecords d))\<rparr>"

definition desired_parameters :: "ResourceData \<Rightarrow> RecordSet" where
  "desired_parameters d =
     \<lparr>StatusCode = 0, ID = None, Name = Some (Get_string (attr_name d)), Etag = None,
      Properties = Some (desired_properties d)\<rparr>"

definition upsert_call :: "ResourceData \<Rightarrow> dns_call" where
  "upsert_call d =
     CreateOrUpdateCall (Get_string (attr_resource_group_name d)) (Get_string (attr_zone_name d))
       (Get_string (attr_name d)) ''PTR'' (desired_parameters d) (Get_string (attr_etag d)) []"

definition upsert :: "ResourceData \<Rightarrow> 's ArmClient \<Rightarrow> (RecordSet \<times> sdk_error option) \<times> 's ArmClient" where
  "upsert d meta =
     dnsClient_CreateOrUpdate meta (Get_string (attr_resource_group_name d))
       (Get_string (attr_zone_name d)) (Get_string (attr_name d)) dns_PTR (desired_parameters d)
       (Get_string (attr_etag d)) []"

fun is_CreateOrUpdateCall :: "dns_call \<Rightarrow> bool" where
  "is_CreateOrUpdateCall (CreateOrUpdateCall rg z n t p e m) = True"
| "is_CreateOrUpdateCall (GetCall rg z n t) = False"
| "is_CreateOrUpdateCall (DeleteCall rg z n t m) = False"

text \<open>The lookup that \<^verbatim>\<open>Read\<close> and the delete that \<^verbatim>\<open>Delete\<close> issue for a parsed identifier.\<close>

definition lookup :: "ResourceID \<Rightarrow> 's ArmClient \<Rightarrow> (RecordSet \<times> sdk_error option) \<times> 's ArmClient" where
  "lookup rid meta =
     dnsClient_Get meta (ResourceGroup rid) (index_map (Path rid) ''dnszones'')
       (index_map (Path rid) ''PTR'') dns_PTR"


subsection \<open>A service that keeps what it is sent\<close>

text \<open>
  \<open>returns_record parse meta i props\<close>: the identifier \<open>i\<close> parses, and the lookup it
  leads to answers without error, with a status other than "not found" and with the
  properties \<open>props\<close>. \<open>keeps_record parse d meta\<close>: the upsert for \<open>d\<close> answers
  without error and with an identifier, and a lookup of that identifier right after
  returns the properties that were sent.
\<close>

definition returns_record :: "parser \<Rightarrow> 's ArmClient \<Rightarrow> string \<Rightarrow> RecordSetProperties \<Rightarrow> bool" where
  "returns_record parse meta i props =
     (case parse i of
        Inl err \<Rightarrow> False
      | Inr rid \<Rightarrow>
          (case lookup rid meta of
             ((resp, err), meta1) \<Rightarrow>
               err = None \<and> StatusCode resp \<noteq> http_StatusNotFound \<and> Properties resp = Some props))"

definition keeps_record :: "parser \<Rightarrow> ResourceData \<Rightarrow> 's ArmClient \<Rightarrow> bool" where
  "keeps_record parse d meta =
     (case upsert d meta of
        ((resp, err), meta1) \<Rightarrow>
          err = None \<and>
          (case ID resp of
             None \<Rightarrow> False
           | Some i \<Rightarrow> returns_record parse meta1 i (desired_properties d)))"

text \<open>Two resource data hold the same desired state: all attributes but the computed \<^verbatim>\<open>etag\<close>.\<close>

definition same_desired :: "ResourceData \<Rightarrow> ResourceData \<Rightarrow> bool" where
  "same_desired d d' =
     (attr_name d' = attr_name d \<and> attr_resource_group_name d' = attr_resource_group_name d \<and>
      attr_zone_name d' = attr_zone_name d \<and> attr_records d' = attr_records d \<and>
      attr_ttl d' = attr_ttl d \<and> attr_tags d' = attr_tags d)"

subsection \<open>Concrete collaborators\<close>

text \<open>
  Modelled from the spec: \<^verbatim>\<open>parseAzureResourceID\<close> (file \<^verbatim>\<open>azurerm/resourceid.go\<close>,
  absent here) "parses the opaque identifier into resource_group and, within its path
  segments, locates the PTR and dnszones components as the record name and zone name
  respectively; fails with ParseError if the identifier does not contain a recognizable
  resource-group segment or these two path components". The path segments are read
  as key/value pairs.
\<close>

fun split_slash :: "string \<Rightarrow> string \<Rightarrow> string list" where
  "split_slash segment [] = [segment]"
| "split_slash segment (c # cs) =
     (if c = CHR ''/'' then segment # split_slash [] cs else split_slash (segment @ [c]) cs)"

fun key_values :: "string list \<Rightarrow> (string \<times> string) list" where
  "key_values (k # v # rest) = (k, v) # key_values rest"
| "key_values [k] = []"
| "key_values [] = []"

definition spec_parseAzureResourceID :: parser where
  "spec_parseAzureResourceID i =
     (let components = map_of (key_values (filter (\<lambda>s. s \<noteq> []) (split_slash [] i)))
      in case components ''resourceGroups'' of
           None \<Rightarrow> Inl ''No resource group name found''
         | Some resourceGroup \<Rightarrow>
             if components ''PTR'' = None \<or> components ''dnszones'' = None
             then Inl ''No PTR record or DNS zone found''
             else Inr \<lparr>ResourceGroup = resourceGroup, Path = components\<rparr>)"

text \<open>A client without state that gives the same three answers to every call.\<close>

definition fixed_client ::
  "RecordSet \<times> sdk_error option \<Rightarrow> RecordSet \<times> sdk_error option \<Rightarrow> Response \<times> sdk_error option
    \<Rightarrow> unit DnsClient" where
  "fixed_client created got deleted =
     \<lparr>sdk_CreateOrUpdate = (\<lambda>resGroup zoneName name recordType parameters ifMatch ifNoneMatch s.
        (created, s)),
      sdk_Get = (\<lambda>resGroup zoneName name recordType s. (got, s)),
      sdk_Delete = (\<lambda>resGroup zoneName name recordType ifMatch s. (deleted, s))\<rparr>"

definition no_RecordSet :: "int \<Rightarrow> RecordSet" where
  "no_RecordSet status =
     \<lparr>StatusCode = status, ID = None, Name = None, Etag = None, Properties = None\<rparr>"

text \<open>
  A service in memory: the record sets it was sent, newest first, under the key
  (resource group, zone, name, type). An upsert stores the record set with a fresh etag
  and the identifier the service assigns; a lookup of a missing key reports "not found".
\<close>

type_synonym memory = "((string \<times> string \<times> string \<times> string) \<times> RecordSet) list"

definition memory_id :: "string \<Rightarrow> string \<Rightarrow> string \<Rightarrow> string \<Rightarrow> string" where
  "memory_id resGroup zoneName name recordType =
     ''/subscriptions/s1/resourceGroups/'' @ resGroup @ ''/providers/Microsoft.Network/dnszones/''
       @ zoneName @ ''/'' @ recordType @ ''/'' @ name"

definition memory_client :: "memory DnsClient" where
  "memory_client =
     \<lparr>sdk_CreateOrUpdate = (\<lambda>resGroup zoneName name recordType parameters ifMatch ifNoneMatch s.
        (let stored = parameters\<lparr>StatusCode := 200,
                                 ID := Some (memory_id resGroup zoneName name recordType),
                                 Etag := Some (replicate (Suc (length s)) (CHR ''e''))\<rparr>
         in ((stored, None), ((resGroup, zoneName, name, recordType), stored) # s))),
      sdk_Get = (\<lambda>resGroup zoneName name recordType s.
        (case map_of s (resGroup, zoneName, name, recordType) of
           None \<Rightarrow> ((no_RecordSet 404, None), s)
         | Some stored \<Rightarrow> ((stored, None), s))),
      sdk_Delete = (\<lambda>resGroup zoneName name recordType ifMatch s.
        ((\<lparr>StatusCode = 200\<rparr>, None),
         filter (\<lambda>entry. fst entry \<noteq> (resGroup, zoneName, name, recordType)) s))\<rparr>"

definition memory_meta :: "memory ArmClient" where
  "memory_meta = \<lparr>dnsClient = memory_client, remote = [], calls = []\<rparr>"

definition fixed_meta ::
  "RecordSet \<times> sdk_error option \<Rightarrow> RecordSet \<times> sdk_error option \<Rightarrow> Response \<times> sdk_error option
    \<Rightarrow> unit ArmClient" where
  "fixed_meta created got deleted =
     \<lparr>dnsClient = fixed_client created got deleted, remote = (), calls = []\<rparr>"

text \<open>The example of the specification.\<close>

definition example_desired :: ResourceData where
  "example_desired =
     \<lparr>Id = [], attr_name = Some ''ptr1'', attr_resource_group_name = Some ''rg1'',
      attr_zone_name = Some ''zone1'',
      attr_records = Some [''host1.example.com'', ''host2.example.com''],
      attr_ttl = Some 300, attr_etag = None, attr_tags = Some [''env'' \<mapsto> ''prod'']\<rparr>"

definition example_id :: string where
  "example_id =
     ''/subscriptions/s1/resourceGroups/rg1/providers/Microsoft.Network/dnszones/zone1/PTR/ptr1''"

text \<open>Values met when the example is run against the service in memory.\<close>

definition example_rid :: ResourceID where
  "example_rid =
     \<lparr>ResourceGroup = ''rg1'',
      Path = map_of [(''subscriptions'', ''s1''), (''resourceGroups'', ''rg1''),
        (''providers'', ''Microsoft.Network''), (''dnszones'', ''zone1''), (''PTR'', ''ptr1'')]\<rparr>"

definition example_stored :: "string \<Rightarrow> RecordSet" where
  "example_stored etag =
     (desired_parameters example_desired)\<lparr>StatusCode := 200, ID := Some example_id,
        Etag := Some etag\<rparr>"

definition example_key :: "string \<times> string \<times> string \<times> string" where
  "example_key = (''rg1'', ''zone1'', ''ptr1'', ''PTR'')"

definition example_remote :: ResourceData where
  "example_remote = example_desired\<lparr>Id := example_id, attr_etag := Some ''e''\<rparr>"

definition example_meta1 :: "memory ArmClient" where
  "example_meta1 =
     \<lparr>dnsClient = memory_client, remote = [(example_key, example_stored ''e'')],
      calls = [upsert_call example_desired, GetCall ''rg1'' ''zone1'' ''ptr1'' ''PTR'']\<rparr>"

section \<open>Properties\<close>

subsection \<open>The helpers and the steps of the entry points\<close>

text \<open>
  The loop of \<^verbatim>\<open>expandAzureRmDnsPtrRecords\<close> fills the slots from \<open>i\<close> on and leaves
  the first \<open>i\<close> as they are; started at \<open>0\<close> on a slice of the right length it is a
  \<open>map\<close>. Flattening what was expanded gives the hostnames back, in order.
\<close>

lemma expand_loop_fill:
  "length records = i + length recordStrings \<Longrightarrow>
   expand_loop i recordStrings records =
     take i records @ map (\<lambda>fqdn. \<lparr>Ptrdname = Some fqdn\<rparr>) recordStrings"
proof (induction i recordStrings records rule: expand_loop.induct)
  case (1 i records)
  then show ?case by simp
next
  case (2 i fqdn rest records)
  then have "i < length records" by simp
  then have "take (Suc i) (records[i := \<lparr>Ptrdname = Some fqdn\<rparr>]) = take i records @ [\<lparr>Ptrdname = Some fqdn\<rparr>]"
    by (simp add: take_Suc_conv_app_nth)
  with 2 show ?case by simp
qed

lemma expand_records:
  "expandAzureRmDnsPtrRecords d =
     (map (\<lambda>fqdn. \<lparr>Ptrdname = Some fqdn\<rparr>) (Get_set_List (attr_records d)), None)"
  by (simp add: expandAzureRmDnsPtrRecords_def Let_def expand_loop_fill)

lemma flatten_loop_expanded:
  "flatten_loop (map (\<lambda>fqdn. \<lparr>Ptrdname = Some fqdn\<rparr>) hosts) results = Inr (results @ hosts)"
  by (induction hosts arbitrary: results) simp_all

lemma flatten_expanded:
  "flattenAzureRmDnsPtrRecords (Some (map (\<lambda>fqdn. \<lparr>Ptrdname = Some fqdn\<rparr>) hosts)) = Inr hosts"
  by (simp add: flattenAzureRmDnsPtrRecords_def flatten_loop_expanded)

text \<open>
  The entry points, with the local variables substituted: what each one returns for each
  answer of the client.
\<close>

lemma CreateOrUpdate_steps:
  "resourceArmDnsPtrRecordCreateOrUpdate parse d meta =
     (case upsert d meta of
        ((resp, Some err), meta1) \<Rightarrow> (Failure (RemoteError err), d, meta1)
      | ((resp, None), meta1) \<Rightarrow>
          (case ID resp of
             None \<Rightarrow>
               (Failure (ProtocolError
                  (''Cannot read DNS PTR Record '' @ Get_string (attr_name d) @ '' (resource group ''
                     @ Get_string (attr_resource_group_name d) @ '') ID'')),
                d, meta1)
           | Some i \<Rightarrow> resourceArmDnsPtrRecordRead parse (SetId d i) meta1))"
  by (simp add: resourceArmDnsPtrRecordCreateOrUpdate_def upsert_def desired_parameters_def
      desired_properties_def Let_def)

lemma upsert_calls:
  "upsert d meta = (r, meta1) \<Longrightarrow>
   calls meta1 = calls meta @ [upsert_call d] \<and> dnsClient meta1 = dnsClient meta"
  by (auto simp: upsert_def upsert_call_def dnsClient_CreateOrUpdate_def dns_PTR_def
      split: prod.splits)

lemma lookup_calls:
  "lookup rid meta = (r, meta1) \<Longrightarrow>
   calls meta1 = calls meta @ [GetCall (ResourceGroup rid) (index_map (Path rid) ''dnszones'')
       (index_map (Path rid) ''PTR'') ''PTR''] \<and> dnsClient meta1 = dnsClient meta"
  by (auto simp: lookup_def dnsClient_Get_def dns_PTR_def split: prod.splits)

lemma Read_steps:
  "resourceArmDnsPtrRecordRead parse d meta =
     (case parse (Id d) of
        Inl err \<Rightarrow> (Failure (ParseError err), d, meta)
      | Inr rid \<Rightarrow>
          (case lookup rid meta of
             ((resp, Some err), meta1) \<Rightarrow>
               (Failure (RemoteError (''Error reading DNS PTR record '' @ index_map (Path rid) ''PTR''
                  @ '': '' @ err)), d, meta1)
           | ((resp, None), meta1) \<Rightarrow>
               if StatusCode resp = http_StatusNotFound then (Success, SetId d [], meta1)
               else
                 (case Properties resp of
                    None \<Rightarrow>
                      (Panic NilPointerDereference,
                       d\<lparr>attr_name := Some (index_map (Path rid) ''PTR''),
                         attr_resource_group_name := Some (ResourceGroup rid),
                         attr_zone_name := Some (index_map (Path rid) ''dnszones'')\<rparr>, meta1)
                  | Some props \<Rightarrow>
                      (case flattenAzureRmDnsPtrRecords (PtrRecords props) of
                         Inl p \<Rightarrow>
                           (Panic p,
                            d\<lparr>attr_name := Some (index_map (Path rid) ''PTR''),
                              attr_resource_group_name := Some (ResourceGroup rid),
                              attr_zone_name := Some (index_map (Path rid) ''dnszones''),
                              attr_ttl := TTL props, attr_etag := Etag resp\<rparr>, meta1)
                       | Inr hosts \<Rightarrow>
                           (Success,
                            d\<lparr>attr_name := Some (index_map (Path rid) ''PTR''),
                              attr_resource_group_name := Some (ResourceGroup rid),
                              attr_zone_name := Some (index_map (Path rid) ''dnszones''),
                              attr_ttl := TTL props, attr_etag := Etag resp,
                              attr_records := Some (remdups hosts),
                              attr_tags := Some (Get_map (Metadata props))\<rparr>, meta1)))))"
  by (simp add: resourceArmDnsPtrRecordRead_def lookup_def Let_def Set_records_def
      flattenAndSetTags_def split: sum.splits prod.splits option.splits)

text \<open>The identifier of the specification's example under the parser above.\<close>

lemma split_example:
  "split_slash [] example_id =
     [[], ''subscriptions'', ''s1'', ''resourceGroups'', ''rg1'', ''providers'',
      ''Microsoft.Network'', ''dnszones'', ''zone1'', ''PTR'', ''ptr1'']"
  by (simp add: example_id_def)

lemma spec_parse_example: "spec_parseAzureResourceID example_id = Inr example_rid"
  by (simp add: spec_parseAzureResourceID_def split_example example_rid_def)

lemma example_rid_fields:
  "ResourceGroup example_rid = ''rg1''"
  "index_map (Path example_rid) ''PTR'' = ''ptr1''"
  "index_map (Path example_rid) ''dnszones'' = ''zone1''"
  by (simp_all add: example_rid_def index_map_def)

text \<open>\<^verbatim>\<open>Read\<close> issues no upsert.\<close>

lemma Read_calls:
  assumes "resourceArmDnsPtrRecordRead parse d meta = (r, d', meta')"
  shows "\<exists>rest. calls meta' = calls meta @ rest \<and> filter is_CreateOrUpdateCall rest = []"
proof (cases "parse (Id d)")
  case (Inl err)
  with assms show ?thesis by (simp add: Read_steps)
next
  case (Inr rid)
  obtain resp err meta1 where l: "lookup rid meta = ((resp, err), meta1)"
    by (metis prod.exhaust)
  from lookup_calls [OF l] have c: "calls meta1 = calls meta @ [GetCall (ResourceGroup rid)
      (index_map (Path rid) ''dnszones'') (index_map (Path rid) ''PTR'') ''PTR'']"
    by simp
  from assms Inr l have "meta' = meta1"
    by (auto simp: Read_steps split: option.splits if_splits sum.splits)
  with c show ?thesis by simp
qed

text \<open>
  What \<^verbatim>\<open>Read\<close> and \<^verbatim>\<open>CreateOrUpdate\<close> leave in the resource data when the service
  returns the record that was sent.
\<close>

lemma Read_returns_record:
  assumes "returns_record parse meta (Id d) props"
    and "PtrRecords props = Some (map (\<lambda>fqdn. \<lparr>Ptrdname = Some fqdn\<rparr>) hosts)"
  shows "\<exists>rid resp meta1.
           parse (Id d) = Inr rid \<and> lookup rid meta = ((resp, None), meta1) \<and>
           resourceArmDnsPtrRecordRead parse d meta =
             (Success,
              d\<lparr>attr_name := Some (index_map (Path rid) ''PTR''),
                attr_resource_group_name := Some (ResourceGroup rid),
                attr_zone_name := Some (index_map (Path rid) ''dnszones''),
                attr_ttl := TTL props, attr_etag := Etag resp,
                attr_records := Some (remdups hosts),
                attr_tags := Some (Get_map (Metadata props))\<rparr>, meta1)"
proof -
  from assms(1) obtain rid where p: "parse (Id d) = Inr rid"
    by (auto simp: returns_record_def split: sum.splits)
  obtain resp err meta1 where l: "lookup rid meta = ((resp, err), meta1)"
    by (metis prod.exhaust)
  from assms(1) p l have r: "err = None" "StatusCode resp \<noteq> http_StatusNotFound"
    "Properties resp = Some props"
    by (simp_all add: returns_record_def)
  show ?thesis
    using p l r assms(2) by (simp add: Read_steps flatten_expanded)
qed

lemma CreateOrUpdate_keeps_record:
  assumes "keeps_record parse d meta"
  shows "\<exists>i rid (resp::RecordSet) meta2.
           parse i = Inr rid \<and>
           resourceArmDnsPtrRecordCreateOrUpdate parse d meta =
             (Success,
              d\<lparr>Id := i,
                attr_name := Some (index_map (Path rid) ''PTR''),
                attr_resource_group_name := Some (ResourceGroup rid),
                attr_zone_name := Some (index_map (Path rid) ''dnszones''),
                attr_ttl := Some (Get_int (attr_ttl d)), attr_etag := Etag resp,
                attr_records := Some (remdups (Get_set_List (attr_records d))),
                attr_tags := Some (Get_map (attr_tags d))\<rparr>, meta2)"
proof -
  obtain uresp err meta1 where u: "upsert d meta = ((uresp, err), meta1)"
    by (metis prod.exhaust)
  from assms u obtain i where n: "err = None" and i: "ID uresp = Some i"
    and k: "returns_record parse meta1 i (desired_properties d)"
    by (auto simp: keeps_record_def split: option.splits)
  have pr: "PtrRecords (desired_properties d) =
      Some (map (\<lambda>fqdn. \<lparr>Ptrdname = Some fqdn\<rparr>) (Get_set_List (attr_records d)))"
    by (simp add: desired_properties_def expand_records)
  from k have k': "returns_record parse meta1 (Id (SetId d i)) (desired_properties d)"
    by (simp add: SetId_def)
  from Read_returns_record [OF k' pr] obtain rid resp meta2 where
    "parse (Id (SetId d i)) = Inr rid"
    "lookup rid meta1 = ((resp, None), meta2)"
    "resourceArmDnsPtrRecordRead parse (SetId d i) meta1 =
       (Success,
        (SetId d i)\<lparr>attr_name := Some (index_map (Path rid) ''PTR''),
          attr_resource_group_name := Some (ResourceGroup rid),
          attr_zone_name := Some (index_map (Path rid) ''dnszones''),
          attr_ttl := TTL (desired_properties d), attr_etag := Etag resp,
          attr_records := Some (remdups (Get_set_List (attr_records d))),
          attr_tags := Some (Get_map (Metadata (desired_properties d)))\<rparr>, meta2)"
    by (elim exE conjE) (rule that)
  then have "parse i = Inr rid \<and>
           resourceArmDnsPtrRecordCreateOrUpdate parse d meta =
             (Success,
              d\<lparr>Id := i,
                attr_name := Some (index_map (Path rid) ''PTR''),
                attr_resource_group_name := Some (ResourceGroup rid),
                attr_zone_name := Some (index_map (Path rid) ''dnszones''),
                attr_ttl := Some (Get_int (attr_ttl d)), attr_etag := Etag resp,
                attr_records := Some (remdups (Get_set_List (attr_records d))),
                attr_tags := Some (Get_map (attr_tags d))\<rparr>, meta2)"
    using u n i
    by (simp add: CreateOrUpdate_steps SetId_def desired_properties_def expandTags_def Get_map_def)
  then show ?thesis
    by - ((rule exI)+, assumption)
qed



lemma Read_ValidationError:
  "fst (resourceArmDnsPtrRecordRead parse d meta) \<noteq> Failure (ValidationError msg)"
  by (auto simp: Read_steps split: sum.splits prod.splits option.splits if_splits)

text \<open>The example, run against the service in memory.\<close>

lemma memory_id_example: "memory_id ''rg1'' ''zone1'' ''ptr1'' ''PTR'' = example_id"
  by (simp add: memory_id_def example_id_def)

lemma memory_CreateOrUpdate:
  "sdk_CreateOrUpdate memory_client resGroup zoneName name recordType parameters ifMatch ifNoneMatch s =
     ((parameters\<lparr>StatusCode := 200, ID := Some (memory_id resGroup zoneName name recordType),
         Etag := Some (replicate (Suc (length s)) (CHR ''e''))\<rparr>, None),
      ((resGroup, zoneName, name, recordType),
       parameters\<lparr>StatusCode := 200, ID := Some (memory_id resGroup zoneName name recordType),
         Etag := Some (replicate (Suc (length s)) (CHR ''e''))\<rparr>) # s)"
  by (simp add: memory_client_def Let_def)

lemma memory_Get:
  "sdk_Get memory_client resGroup zoneName name recordType s =
     (case map_of s (resGroup, zoneName, name, recordType) of
        None \<Rightarrow> ((no_RecordSet 404, None), s)
      | Some stored \<Rightarrow> ((stored, None), s))"
  by (simp add: memory_client_def)

lemma example_upsert:
  "upsert example_desired \<lparr>dnsClient = memory_client, remote = s, calls = cs\<rparr> =
     ((example_stored (replicate (Suc (length s)) (CHR ''e'')), None),
      \<lparr>dnsClient = memory_client,
       remote = (example_key, example_stored (replicate (Suc (length s)) (CHR ''e''))) # s,
       calls = cs @ [upsert_call example_desired]\<rparr>)"
  by (simp add: upsert_def dnsClient_CreateOrUpdate_def memory_CreateOrUpdate example_stored_def
      example_key_def upsert_call_def dns_PTR_def memory_id_example [symmetric]
      example_desired_def Get_string_def)

lemma example_lookup:
  "lookup example_rid \<lparr>dnsClient = memory_client, remote = (example_key, stored) # s, calls = cs\<rparr> =
     ((stored, None),
      \<lparr>dnsClient = memory_client, remote = (example_key, stored) # s,
       calls = cs @ [GetCall ''rg1'' ''zone1'' ''ptr1'' ''PTR'']\<rparr>)"
  by (simp add: lookup_def dnsClient_Get_def memory_Get example_rid_fields dns_PTR_def
      example_key_def)

lemma example_stored_fields:
  "StatusCode (example_stored etag) = 200"
  "ID (example_stored etag) = Some example_id"
  "Etag (example_stored etag) = Some etag"
  "Properties (example_stored etag) = Some (desired_properties example_desired)"
  by (simp_all add: example_stored_def desired_parameters_def)

lemma example_returns:
  "returns_record spec_parseAzureResourceID
     \<lparr>dnsClient = memory_client, remote = (example_key, example_stored etag) # s, calls = cs\<rparr>
     example_id (desired_properties example_desired)"
  by (simp add: returns_record_def spec_parse_example example_lookup example_stored_fields
      http_StatusNotFound_def)

lemma example_keeps:
  "keeps_record spec_parseAzureResourceID example_desired
     \<lparr>dnsClient = memory_client, remote = s, calls = cs\<rparr>"
  by (simp add: keeps_record_def example_upsert example_stored_fields example_returns)

lemma example_properties:
  "desired_properties example_desired =
     \<lparr>Metadata = Some [''env'' \<mapsto> ''prod''], TTL = Some 300,
      PtrRecords = Some [\<lparr>Ptrdname = Some ''host1.example.com''\<rparr>,
                         \<lparr>Ptrdname = Some ''host2.example.com''\<rparr>]\<rparr>"
  by (simp add: desired_properties_def example_desired_def expand_records expandTags_def
      Get_map_def Get_int_def Get_set_List_def)

lemma example_Read:
  "Id d = example_id \<Longrightarrow>
   resourceArmDnsPtrRecordRead spec_parseAzureResourceID d
     \<lparr>dnsClient = memory_client, remote = (example_key, example_stored etag) # s, calls = cs\<rparr> =
     (Success,
      d\<lparr>attr_name := Some ''ptr1'', attr_resource_group_name := Some ''rg1'',
        attr_zone_name := Some ''zone1'', attr_ttl := Some 300, attr_etag := Some etag,
        attr_records := Some [''host1.example.com'', ''host2.example.com''],
        attr_tags := Some [''env'' \<mapsto> ''prod'']\<rparr>,
      \<lparr>dnsClient = memory_client, remote = (example_key, example_stored etag) # s,
       calls = cs @ [GetCall ''rg1'' ''zone1'' ''ptr1'' ''PTR'']\<rparr>)"
  by (simp add: Read_steps spec_parse_example example_lookup example_stored_fields
      http_StatusNotFound_def example_properties flattenAzureRmDnsPtrRecords_def
      example_rid_fields Get_map_def)

lemma example_CreateOrUpdate:
  "resourceArmDnsPtrRecordCreateOrUpdate spec_parseAzureResourceID example_desired memory_meta =
     (Success, example_remote, example_meta1)"
  by (simp add: CreateOrUpdate_steps memory_meta_def example_upsert example_stored_fields
      example_Read SetId_def example_remote_def example_meta1_def)
    (simp add: example_desired_def)

lemma same_desired_upsert:
  assumes "same_desired example_desired d"
  shows "upsert d \<lparr>dnsClient = memory_client, remote = s, calls = cs\<rparr> =
     ((example_stored (replicate (Suc (length s)) (CHR ''e'')), None),
      \<lparr>dnsClient = memory_client,
       remote = (example_key, example_stored (replicate (Suc (length s)) (CHR ''e''))) # s,
       calls = cs @ [upsert_call d]\<rparr>)"
proof -
  from assms have p: "desired_parameters d = desired_parameters example_desired"
    by (simp add: same_desired_def desired_parameters_def desired_properties_def
        expandAzureRmDnsPtrRecords_def)
  from assms have f: "attr_name d = Some ''ptr1''" "attr_resource_group_name d = Some ''rg1''"
    "attr_zone_name d = Some ''zone1''"
    by (simp_all add: same_desired_def example_desired_def)
  show ?thesis
    by (simp add: upsert_def dnsClient_CreateOrUpdate_def memory_CreateOrUpdate example_stored_def
      example_key_def upsert_call_def dns_PTR_def memory_id_example [symmetric] p f Get_string_def)
qed

lemma same_desired_keeps:
  assumes "same_desired example_desired d"
  shows "keeps_record spec_parseAzureResourceID d
     \<lparr>dnsClient = memory_client, remote = s, calls = cs\<rparr>"
proof -
  from assms have "desired_properties d = desired_properties example_desired"
    by (simp add: same_desired_def desired_properties_def expandAzureRmDnsPtrRecords_def)
  then show ?thesis
    by (simp add: keeps_record_def same_desired_upsert [OF assms] example_stored_fields
        example_returns)
qed

lemma example_same_desired: "same_desired example_desired example_remote"
  by (simp add: same_desired_def example_remote_def)

lemma example_CreateOrUpdate_again:
  "resourceArmDnsPtrRecordCreateOrUpdate spec_parseAzureResourceID example_remote example_meta1 =
     (Success, example_remote\<lparr>attr_etag := Some ''ee''\<rparr>,
      \<lparr>dnsClient = memory_client,
       remote = [(example_key, example_stored ''ee''), (example_key, example_stored ''e'')],
       calls = [upsert_call example_desired, GetCall ''rg1'' ''zone1'' ''ptr1'' ''PTR'',
                upsert_call example_remote, GetCall ''rg1'' ''zone1'' ''ptr1'' ''PTR'']\<rparr>)"
  by (simp add: CreateOrUpdate_steps example_meta1_def
      same_desired_upsert [OF example_same_desired] example_stored_fields
      example_Read SetId_def)
    (simp add: example_remote_def example_desired_def)



lemma fixed_upsert:
  "upsert d (fixed_meta created got deleted) =
     (created, \<lparr>dnsClient = fixed_client created got deleted, remote = (),
                calls = [upsert_call d]\<rparr>)"
  by (simp add: upsert_def dnsClient_CreateOrUpdate_def fixed_meta_def fixed_client_def
      upsert_call_def dns_PTR_def)


subsection \<open>The claims\<close>




text \<open>
  Claim C2, as the code has it. The code has no validation: \<^verbatim>\<open>d.Get\<close> reads an absent
  attribute as the zero value of its type. For every resource data in which
  \<^verbatim>\<open>name\<close>, \<^verbatim>\<open>resource_group_name\<close>, \<^verbatim>\<open>zone_name\<close> or \<^verbatim>\<open>ttl\<close> is absent,
  \<^verbatim>\<open>CreateOrUpdate\<close> does not return a \<open>ValidationError\<close>, and the first thing it does
  is the upsert call, carrying the zero values.
\<close>

theorem CreateOrUpdate_absent_fields:
  assumes "attr_name d = None \<or> attr_resource_group_name d = None \<or> attr_zone_name d = None \<or>
           attr_ttl d = None"
  shows "fst (resourceArmDnsPtrRecordCreateOrUpdate parse d meta) \<noteq> Failure (ValidationError msg) \<and>
         (\<exists>rest. calls (snd (snd (resourceArmDnsPtrRecordCreateOrUpdate parse d meta))) =
            calls meta @
              [CreateOrUpdateCall (Get_string (attr_resource_group_name d))
                 (Get_string (attr_zone_name d)) (Get_string (attr_name d)) ''PTR''
                 (desired_parameters d) (Get_string (attr_etag d)) []] @ rest)"
proof -
  obtain resp err meta1 where u: "upsert d meta = ((resp, err), meta1)"
    by (metis prod.exhaust)
  have c: "calls meta1 = calls meta @ [upsert_call d]"
    using upsert_calls [OF u] by simp
  show ?thesis
  proof (cases "err = None \<and> ID resp \<noteq> None")
    case False
    then have "snd (snd (resourceArmDnsPtrRecordCreateOrUpdate parse d meta)) = meta1"
      "fst (resourceArmDnsPtrRecordCreateOrUpdate parse d meta) \<noteq> Failure (ValidationError msg)"
      using u by (auto simp: CreateOrUpdate_steps split: option.splits)
    with c show ?thesis by (simp add: upsert_call_def)
  next
    case True
    then obtain i where i: "ID resp = Some i" and n: "err = None" by auto
    obtain r d' meta' where rd: "resourceArmDnsPtrRecordRead parse (SetId d i) meta1 = (r, d', meta')"
      by (metis prod.exhaust)
    from Read_calls [OF rd] obtain rest where
      rest: "calls meta' = calls meta1 @ rest"
      by blast
    have "resourceArmDnsPtrRecordCreateOrUpdate parse d meta = (r, d', meta')"
      using u i n rd by (simp add: CreateOrUpdate_steps)
    moreover have "r \<noteq> Failure (ValidationError msg)"
      using Read_ValidationError [of parse "SetId d i" meta1 msg] rd by simp
    ultimately show ?thesis using rest c by (simp add: upsert_call_def)
  qed
qed

text \<open>Resource data with no attribute at all, and a service that rejects the call.\<close>

theorem CreateOrUpdate_absent_fields_witness:
  "attr_name (new_ResourceData []) = None \<and>
   fst (resourceArmDnsPtrRecordCreateOrUpdate spec_parseAzureResourceID (new_ResourceData [])
     (fixed_meta (no_RecordSet 400, Some ''bad request'') (no_RecordSet 0, None)
        (\<lparr>StatusCode = 0\<rparr>, None))) \<noteq> Failure (ValidationError ''name is required'') \<and>
   (\<exists>rest. calls (snd (snd (resourceArmDnsPtrRecordCreateOrUpdate spec_parseAzureResourceID
       (new_ResourceData [])
       (fixed_meta (no_RecordSet 400, Some ''bad request'') (no_RecordSet 0, None)
          (\<lparr>StatusCode = 0\<rparr>, None))))) =
      [CreateOrUpdateCall [] [] [] ''PTR'' (desired_parameters (new_ResourceData [])) [] []]
        @ rest)"
proof -
  have a: "attr_name (new_ResourceData []) = None"
    by (simp add: new_ResourceData_def)
  then have h: "attr_name (new_ResourceData []) = None \<or>
      attr_resource_group_name (new_ResourceData []) = None \<or>
      attr_zone_name (new_ResourceData []) = None \<or> attr_ttl (new_ResourceData []) = None"
    by simp
  have g: "attr_resource_group_name (new_ResourceData []) = None"
    "attr_zone_name (new_ResourceData []) = None" "attr_etag (new_ResourceData []) = None"
    by (simp_all add: new_ResourceData_def)
  have c: "calls (fixed_meta (no_RecordSet 400, Some ''bad request'') (no_RecordSet 0, None)
          (\<lparr>StatusCode = 0\<rparr>, None)) = []"
    by (simp add: fixed_meta_def)
  from CreateOrUpdate_absent_fields [OF h, of spec_parseAzureResourceID
      "fixed_meta (no_RecordSet 400, Some ''bad request'') (no_RecordSet 0, None)
          (\<lparr>StatusCode = 0\<rparr>, None)" "''name is required''"] a
  show ?thesis by (simp add: g c Get_string_def)
qed

text \<open>
  C2 as stated fails on resource data with no attribute at all: the upsert call is
  issued, with empty names and a ttl of 0, and the error returned is the one of the
  service.
\<close>

theorem CreateOrUpdate_no_validation:
  "attr_name (new_ResourceData []) = None \<and>
   attr_resource_group_name (new_ResourceData []) = None \<and>
   attr_zone_name (new_ResourceData []) = None \<and>
   attr_ttl (new_ResourceData []) = None \<and>
   resourceArmDnsPtrRecordCreateOrUpdate spec_parseAzureResourceID (new_ResourceData [])
     (fixed_meta (no_RecordSet 400, Some ''bad request'') (no_RecordSet 0, None)
        (\<lparr>StatusCode = 0\<rparr>, None)) =
     (Failure (RemoteError ''bad request''), new_ResourceData [],
      \<lparr>dnsClient = fixed_client (no_RecordSet 400, Some ''bad request'') (no_RecordSet 0, None)
         (\<lparr>StatusCode = 0\<rparr>, None),
       remote = (),
       calls = [CreateOrUpdateCall [] [] [] ''PTR''
         \<lparr>StatusCode = 0, ID = None, Name = Some [], Etag = None,
          Properties = Some \<lparr>Metadata = Some Map.empty, TTL = Some 0, PtrRecords = Some []\<rparr>\<rparr>
         [] []]\<rparr>)"
  by (simp add: CreateOrUpdate_steps fixed_upsert upsert_call_def desired_parameters_def
      desired_properties_def expand_records expandTags_def)
    (simp add: new_ResourceData_def Get_string_def Get_int_def Get_map_def Get_set_List_def)







text \<open>
  Claim C6. Let \<open>d'\<close> hold the same desired state as \<open>d\<close> (the etag and the identifier
  may differ), and let the service keep what it is sent both times. Then
  \<^verbatim>\<open>CreateOrUpdate\<close> on \<open>d\<close> and then on \<open>d'\<close> succeeds twice, sends the same record set
  twice, and leaves the same records, ttl and tags in the resource data.
\<close>

theorem CreateOrUpdate_twice:
  assumes "keeps_record parse d meta"
    and "resourceArmDnsPtrRecordCreateOrUpdate parse d meta = (r1, d1, meta1)"
    and "same_desired d d'"
    and "keeps_record parse d' meta1"
    and "resourceArmDnsPtrRecordCreateOrUpdate parse d' meta1 = (r2, d2, meta2)"
  shows "r1 = Success \<and> r2 = Success \<and>
         desired_parameters d' = desired_parameters d \<and>
         attr_records d2 = attr_records d1 \<and> attr_ttl d2 = attr_ttl d1 \<and>
         attr_tags d2 = attr_tags d1"
proof -
  from assms(3) have same: "desired_properties d' = desired_properties d"
    "desired_parameters d' = desired_parameters d"
    by (simp_all add: same_desired_def desired_parameters_def desired_properties_def
        expandAzureRmDnsPtrRecords_def)
  from CreateOrUpdate_keeps_record [OF assms(1)] assms(2)
  have 1: "r1 = Success" "attr_records d1 = Some (remdups (Get_set_List (attr_records d)))"
    "attr_ttl d1 = Some (Get_int (attr_ttl d))" "attr_tags d1 = Some (Get_map (attr_tags d))"
    by auto
  from CreateOrUpdate_keeps_record [OF assms(4)] assms(5)
  have 2: "r2 = Success" "attr_records d2 = Some (remdups (Get_set_List (attr_records d')))"
    "attr_ttl d2 = Some (Get_int (attr_ttl d'))" "attr_tags d2 = Some (Get_map (attr_tags d'))"
    by auto
  from 1 2 same assms(3) show ?thesis
    by (simp add: same_desired_def)
qed

text \<open>
  The example, created and then updated with what the first call left: the records, ttl
  and tags stay, the etag changes.
\<close>

theorem CreateOrUpdate_twice_witness:
  "keeps_record spec_parseAzureResourceID example_desired memory_meta \<and>
   resourceArmDnsPtrRecordCreateOrUpdate spec_parseAzureResourceID example_desired memory_meta =
     (Success, example_remote, example_meta1) \<and>
   same_desired example_desired example_remote \<and>
   keeps_record spec_parseAzureResourceID example_remote example_meta1 \<and>
   fst (resourceArmDnsPtrRecordCreateOrUpdate spec_parseAzureResourceID example_remote
     example_meta1) = Success \<and>
   attr_records (fst (snd (resourceArmDnsPtrRecordCreateOrUpdate spec_parseAzureResourceID
     example_remote example_meta1))) = attr_records example_remote \<and>
   attr_ttl (fst (snd (resourceArmDnsPtrRecordCreateOrUpdate spec_parseAzureResourceID
     example_remote example_meta1))) = attr_ttl example_remote \<and>
   attr_tags (fst (snd (resourceArmDnsPtrRecordCreateOrUpdate spec_parseAzureResourceID
     example_remote example_meta1))) = attr_tags example_remote \<and>
   attr_etag example_remote = Some ''e'' \<and>
   attr_etag (fst (snd (resourceArmDnsPtrRecordCreateOrUpdate spec_parseAzureResourceID
     example_remote example_meta1))) = Some ''ee''"
proof -
  have k: "keeps_record spec_parseAzureResourceID example_desired memory_meta"
    by (simp add: memory_meta_def example_keeps)
  have k2: "keeps_record spec_parseAzureResourceID example_remote example_meta1"
    by (simp add: example_meta1_def same_desired_keeps [OF example_same_desired])
  have c2: "resourceArmDnsPtrRecordCreateOrUpdate spec_parseAzureResourceID example_remote
      example_meta1 =
     (fst (resourceArmDnsPtrRecordCreateOrUpdate spec_parseAzureResourceID example_remote
        example_meta1),
      fst (snd (resourceArmDnsPtrRecordCreateOrUpdate spec_parseAzureResourceID example_remote
        example_meta1)),
      snd (snd (resourceArmDnsPtrRecordCreateOrUpdate spec_parseAzureResourceID example_remote
        example_meta1)))"
    by simp
  have e: "attr_etag example_remote = Some ''e''"
    "attr_etag (fst (snd (resourceArmDnsPtrRecordCreateOrUpdate spec_parseAzureResourceID
       example_remote example_meta1))) = Some ''ee''"
    by (simp_all add: example_CreateOrUpdate_again) (simp add: example_remote_def)
  from CreateOrUpdate_twice [OF k example_CreateOrUpdate example_same_desired k2 c2]
    k k2 example_CreateOrUpdate example_same_desired e
  show ?thesis by simp
qed

text \<open>
  Claim C7. The calls that \<^verbatim>\<open>CreateOrUpdate\<close> adds to those made before start with one
  upsert, which carries the resource group, the zone, the name, the type \<^verbatim>\<open>PTR\<close>, the
  record set (the name; the metadata made from the tags, the ttl and one record per
  hostname), the etag of the resource data and an empty last argument; no other upsert
  follows.
\<close>

theorem CreateOrUpdate_one_upsert:
  "\<exists>rest. calls (snd (snd (resourceArmDnsPtrRecordCreateOrUpdate parse d meta))) =
      calls meta @
        [CreateOrUpdateCall (Get_string (attr_resource_group_name d))
           (Get_string (attr_zone_name d)) (Get_string (attr_name d)) ''PTR''
           \<lparr>StatusCode = 0, ID = None, Name = Some (Get_string (attr_name d)), Etag = None,
            Properties = Some
              \<lparr>Metadata = expandTags (Get_map (attr_tags d)),
               TTL = Some (Get_int (attr_ttl d)),
               PtrRecords = Some (map (\<lambda>fqdn. \<lparr>Ptrdname = Some fqdn\<rparr>)
                 (Get_set_List (attr_records d)))\<rparr>\<rparr>
           (Get_string (attr_etag d)) []] @ rest \<and>
    filter is_CreateOrUpdateCall rest = []"
proof -
  obtain resp err meta1 where u: "upsert d meta = ((resp, err), meta1)"
    by (metis prod.exhaust)
  have c: "calls meta1 = calls meta @ [upsert_call d]"
    using upsert_calls [OF u] by simp
  have e: "upsert_call d = CreateOrUpdateCall (Get_string (attr_resource_group_name d))
           (Get_string (attr_zone_name d)) (Get_string (attr_name d)) ''PTR''
           \<lparr>StatusCode = 0, ID = None, Name = Some (Get_string (attr_name d)), Etag = None,
            Properties = Some
              \<lparr>Metadata = expandTags (Get_map (attr_tags d)),
               TTL = Some (Get_int (attr_ttl d)),
               PtrRecords = Some (map (\<lambda>fqdn. \<lparr>Ptrdname = Some fqdn\<rparr>)
                 (Get_set_List (attr_records d)))\<rparr>\<rparr>
           (Get_string (attr_etag d)) []"
    by (simp add: upsert_call_def desired_parameters_def desired_properties_def expand_records)
  show ?thesis
  proof (cases "err = None \<and> ID resp \<noteq> None")
    case False
    then have "snd (snd (resourceArmDnsPtrRecordCreateOrUpdate parse d meta)) = meta1"
      using u by (auto simp: CreateOrUpdate_steps split: option.splits)
    with c e show ?thesis by simp
  next
    case True
    then obtain i where i: "ID resp = Some i" and n: "err = None" by auto
    obtain r d' meta' where rd: "resourceArmDnsPtrRecordRead parse (SetId d i) meta1 = (r, d', meta')"
      by (metis prod.exhaust)
    from Read_calls [OF rd] obtain rest where
      rest: "calls meta' = calls meta1 @ rest" "filter is_CreateOrUpdateCall rest = []"
      by blast
    have "snd (snd (resourceArmDnsPtrRecordCreateOrUpdate parse d meta)) = meta'"
      using u i n rd by (simp add: CreateOrUpdate_steps)
    with rest c e show ?thesis by simp
  qed
qed

text \<open>
  Claim C8. When the upsert call returns no error: without an identifier in the
  response, \<^verbatim>\<open>CreateOrUpdate\<close> returns a \<open>ProtocolError\<close> and the identifier of the
  resource data is the one it had; with an identifier \<open>i\<close>, \<^verbatim>\<open>CreateOrUpdate\<close> is
  \<^verbatim>\<open>Read\<close> on the resource data whose identifier is \<open>i\<close>.
\<close>

theorem CreateOrUpdate_identifier:
  assumes "upsert d meta = ((resp, None), meta1)"
  shows "(ID resp = None \<longrightarrow>
            (\<exists>msg. fst (resourceArmDnsPtrRecordCreateOrUpdate parse d meta) =
               Failure (ProtocolError msg)) \<and>
            Id (fst (snd (resourceArmDnsPtrRecordCreateOrUpdate parse d meta))) = Id d) \<and>
         (\<forall>i. ID resp = Some i \<longrightarrow>
            Id (SetId d i) = i \<and>
            resourceArmDnsPtrRecordCreateOrUpdate parse d meta =
              resourceArmDnsPtrRecordRead parse (SetId d i) meta1)"
  using assms by (simp add: CreateOrUpdate_steps SetId_def)

text \<open>
  A response without identifier, and the response of the service in memory to the
  example.
\<close>

theorem CreateOrUpdate_identifier_witness:
  "upsert example_desired (fixed_meta (no_RecordSet 200, None) (no_RecordSet 404, None)
      (\<lparr>StatusCode = 0\<rparr>, None)) =
     ((no_RecordSet 200, None),
      \<lparr>dnsClient = fixed_client (no_RecordSet 200, None) (no_RecordSet 404, None)
         (\<lparr>StatusCode = 0\<rparr>, None), remote = (), calls = [upsert_call example_desired]\<rparr>) \<and>
   ID (no_RecordSet 200) = None \<and>
   fst (resourceArmDnsPtrRecordCreateOrUpdate spec_parseAzureResourceID example_desired
     (fixed_meta (no_RecordSet 200, None) (no_RecordSet 404, None) (\<lparr>StatusCode = 0\<rparr>, None))) =
     Failure (ProtocolError ''Cannot read DNS PTR Record ptr1 (resource group rg1) ID'') \<and>
   Id (fst (snd (resourceArmDnsPtrRecordCreateOrUpdate spec_parseAzureResourceID example_desired
     (fixed_meta (no_RecordSet 200, None) (no_RecordSet 404, None)
        (\<lparr>StatusCode = 0\<rparr>, None))))) = Id example_desired \<and>
   ID (example_stored ''e'') = Some example_id \<and>
   resourceArmDnsPtrRecordCreateOrUpdate spec_parseAzureResourceID example_desired memory_meta =
     resourceArmDnsPtrRecordRead spec_parseAzureResourceID (SetId example_desired example_id)
       \<lparr>dnsClient = memory_client, remote = [(example_key, example_stored ''e'')],
        calls = [upsert_call example_desired]\<rparr> \<and>
   Id (SetId example_desired example_id) = example_id"
proof -
  have u1: "upsert example_desired (fixed_meta (no_RecordSet 200, None) (no_RecordSet 404, None)
      (\<lparr>StatusCode = 0\<rparr>, None)) =
     ((no_RecordSet 200, None),
      \<lparr>dnsClient = fixed_client (no_RecordSet 200, None) (no_RecordSet 404, None)
         (\<lparr>StatusCode = 0\<rparr>, None), remote = (), calls = [upsert_call example_desired]\<rparr>)"
    by (rule fixed_upsert)
  have u2: "upsert example_desired memory_meta =
     ((example_stored ''e'', None),
      \<lparr>dnsClient = memory_client, remote = [(example_key, example_stored ''e'')],
        calls = [upsert_call example_desired]\<rparr>)"
    by (simp add: memory_meta_def example_upsert)
  have p: "fst (resourceArmDnsPtrRecordCreateOrUpdate spec_parseAzureResourceID example_desired
     (fixed_meta (no_RecordSet 200, None) (no_RecordSet 404, None) (\<lparr>StatusCode = 0\<rparr>, None))) =
     Failure (ProtocolError ''Cannot read DNS PTR Record ptr1 (resource group rg1) ID'')"
    by (simp add: CreateOrUpdate_steps u1)
      (simp add: no_RecordSet_def example_desired_def Get_string_def)
  from CreateOrUpdate_identifier [OF u1, of spec_parseAzureResourceID]
    CreateOrUpdate_identifier [OF u2, of spec_parseAzureResourceID] u1 p
  show ?thesis
    by (simp add: example_stored_fields no_RecordSet_def)
qed

text \<open>
  Claim C9. For all resource data, the error that \<^verbatim>\<open>expandAzureRmDnsPtrRecords\<close>
  returns is \<^verbatim>\<open>nil\<close>; the records are one per hostname of the set.
\<close>

theorem expand_returns_nil:
  "snd (expandAzureRmDnsPtrRecords d) = None \<and>
   fst (expandAzureRmDnsPtrRecords d) =
     map (\<lambda>fqdn. \<lparr>Ptrdname = Some fqdn\<rparr>) (Get_set_List (attr_records d))"
  by (simp add: expand_records)

text \<open>
  Claim C10 fails on the code: on the \<^verbatim>\<open>nil\<close> pointer
  \<^verbatim>\<open>flattenAzureRmDnsPtrRecords\<close> dereferences it, in \<^verbatim>\<open>len(*records)\<close>, before the
  test \<^verbatim>\<open>records != nil\<close> is reached.
\<close>

theorem flatten_nil_panics:
  "flattenAzureRmDnsPtrRecords None = Inl NilPointerDereference"
  by (simp add: flattenAzureRmDnsPtrRecords_def)

end
